theory Spec2Isabelle
  imports Complex_Main
begin

section \<open>Data model\<close>

text \<open>
  The three strategies (\<^verbatim>\<open>TQQQStrategy\<close>, \<^verbatim>\<open>TQQQStrategyV2\<close>, \<^verbatim>\<open>TQQQStrategyV3\<close>) work on a
  pandas data frame with one row per trading day. A row is modelled as a record of the
  columns the back-test loops and the signal generator of variant 3 read. Python floats
  are modelled as real numbers; a cell that can hold NaN (every rolling indicator during
  its warm-up) is a \<open>real option\<close>, with \<open>None\<close> for NaN. A comparison with NaN is false in
  Python, which the helpers \<open>nan_less\<close> and \<open>nan_greater\<close> write out.
\<close>

record bar =
  open_price :: real
  close :: real
  ma_2 :: "real option"
  ma_7 :: "real option"
  ma_20 :: "real option"
  ma_50 :: "real option"
  volatility :: "real option"
  momentum :: "real option"
  momentum_20 :: "real option"
  ATR :: "real option"
  rsi :: "real option"
  buy_signal :: bool
  sell_signal :: bool

datatype signal = Buy | Sell | Hold

text \<open>
  A float division by zero does not raise in numpy: it yields \<open>inf\<close> or \<open>nan\<close>, and
  \<^verbatim>\<open>int()\<close> of such a value raises. The real-number model has no such values, so a
  computation that divides by zero stops with \<open>NonFinite\<close>. \<open>IndexError\<close> is pandas'
  \<^verbatim>\<open>iloc\<close> out of range.
\<close>

datatype error = NonFinite | IndexError

text \<open>The dictionaries appended to \<^verbatim>\<open>history\<close>: variant 1 has six keys, variant 2 adds the
  volatility, variant 3 adds the ATR and the RSI.\<close>

record ledger_row =
  date :: nat
  row_cash :: real
  row_position :: int
  row_portfolio_value :: real
  row_close :: real
  row_signal :: signal

record ledger_row_v2 = ledger_row +
  row_volatility :: "real option"

record ledger_row_v3 = ledger_row_v2 +
  row_ATR :: "real option"
  row_rsi :: "real option"

text \<open>The local variables of the back-test loops, carried from bar to bar.\<close>

record 'r state =
  cash :: real
  position :: int
  history :: "'r list"

record 'r state_v2 = "'r state" +
  highest_price :: real

record 'r state_v3 = "'r state_v2" +
  avg_cost :: real
  atr_stop_price :: "real option"

definition nan_less :: "real option \<Rightarrow> real \<Rightarrow> bool" where
  "nan_less x c = (case x of None \<Rightarrow> False | Some v \<Rightarrow> v < c)"

definition nan_greater :: "real option \<Rightarrow> real \<Rightarrow> bool" where
  "nan_greater x c = (case x of None \<Rightarrow> False | Some v \<Rightarrow> v > c)"

definition signal_of :: "bar \<Rightarrow> signal" where
  "signal_of b = (if buy_signal b then Buy else if sell_signal b then Sell else Hold)"

text \<open>Python's \<^verbatim>\<open>int(x)\<close> on a float truncates towards zero.\<close>

definition py_int :: "real \<Rightarrow> int" where
  "py_int x = (if 0 \<le> x then \<lfloor>x\<rfloor> else \<lceil>x\<rceil>)"

section \<open>The loop over bar indices\<close>

text \<open>\<^verbatim>\<open>for i in range(a, b): body\<close>: the body is run on each index in turn, on the state
  the previous index left; an error stops the loop.\<close>

fun run_bars :: "(nat \<Rightarrow> 's \<Rightarrow> error + 's) \<Rightarrow> nat list \<Rightarrow> 's \<Rightarrow> error + 's" where
  "run_bars f [] s = Inr s"
| "run_bars f (i # is) s = (case f i s of Inl e \<Rightarrow> Inl e | Inr s' \<Rightarrow> run_bars f is s')"

section \<open>Variant 1: \<^verbatim>\<open>TQQQStrategy.backtest\<close>\<close>

definition emit_v1 :: "bar list \<Rightarrow> nat \<Rightarrow> ledger_row state \<Rightarrow> ledger_row state" where
  "emit_v1 data i s =
     s\<lparr>history := history s @
        [\<lparr>date = i, row_cash = cash s, row_position = position s,
          row_portfolio_value = cash s + real_of_int (position s) * close (data ! i),
          row_close = close (data ! i), row_signal = signal_of (data ! i)\<rparr>]\<rparr>"

definition step_v1 :: "bar list \<Rightarrow> nat \<Rightarrow> ledger_row state \<Rightarrow> error + ledger_row state" where
  "step_v1 data i s =
     (if length data \<le> i + 1 then Inl IndexError
      else
        let current_price = close (data ! i);
            next_open = open_price (data ! (i + 1));
            total_value = cash s + real_of_int (position s) * current_price
        in if buy_signal (data ! i) \<and> position s = 0 then
             (if next_open = 0 then Inl NonFinite
              else
                let position' = \<lfloor>(total_value * 0.97) / next_open\<rfloor>
                in Inr (emit_v1 data i
                     (s\<lparr>position := position',
                        cash := cash s - real_of_int position' * next_open\<rparr>)))
           else if sell_signal (data ! i) \<and> position s > 0 then
             Inr (emit_v1 data i
               (s\<lparr>cash := cash s + real_of_int (position s) * next_open, position := 0\<rparr>))
           else Inr (emit_v1 data i s))"

text \<open>\<^verbatim>\<open>range(7, len(self.data)-2)\<close>; the range is empty when the frame has fewer than ten
  rows, as the truncating subtraction on \<open>nat\<close> gives.\<close>

definition bars_v1 :: "bar list \<Rightarrow> nat list" where
  "bars_v1 data = [7 ..< length data - 2]"

definition init_v1 :: "real \<Rightarrow> ledger_row state" where
  "init_v1 initial_cash = \<lparr>cash = initial_cash, position = 0, history = []\<rparr>"


section \<open>Variant 2: \<^verbatim>\<open>TQQQStrategyV2.backtest\<close>\<close>

text \<open>The attributes set by \<^verbatim>\<open>TQQQStrategyV2.__init__\<close>.\<close>

definition max_position_v2 :: real where "max_position_v2 = 0.7"
definition stop_loss_v2 :: real where "stop_loss_v2 = - 0.05"
definition trailing_stop_v2 :: real where "trailing_stop_v2 = 0.08"
definition commission_v2 :: real where "commission_v2 = 0.0003"
definition slippage_v2 :: real where "slippage_v2 = 0.0002"
definition vol_threshold_v2 :: real where "vol_threshold_v2 = 0.025"

text \<open>\<^verbatim>\<open>calculate_transaction_costs(price, shares)\<close>, the same method in variants 2 and 3;
  the two rates are the object's attributes.\<close>

definition calculate_transaction_costs :: "real \<Rightarrow> real \<Rightarrow> real \<Rightarrow> real \<Rightarrow> real" where
  "calculate_transaction_costs commission_rate slippage_rate price shares =
     price * shares * commission_rate + price * shares * slippage_rate"

text \<open>\<^verbatim>\<open>TQQQStrategyV2.calculate_position_size\<close> returns a fraction, not a share count.
  \<^verbatim>\<open>max(0.3, nan)\<close> is \<open>0.3\<close> in Python.\<close>

definition calculate_position_size_v2 :: "real \<Rightarrow> real \<Rightarrow> real option \<Rightarrow> real" where
  "calculate_position_size_v2 cash0 price vol =
     (let base_position = max_position_v2;
          vol_adj = (case vol of None \<Rightarrow> 0.3
                     | Some v \<Rightarrow> max 0.3 (1 - v / (vol_threshold_v2 * 1.5)))
      in base_position * vol_adj)"

definition emit_v2 :: "bar list \<Rightarrow> nat \<Rightarrow> ledger_row_v2 state_v2 \<Rightarrow> ledger_row_v2 state_v2" where
  "emit_v2 data i s =
     s\<lparr>history := history s @
        [\<lparr>date = i, row_cash = cash s, row_position = position s,
          row_portfolio_value = cash s + real_of_int (position s) * close (data ! i),
          row_close = close (data ! i), row_signal = signal_of (data ! i),
          row_volatility = volatility (data ! i)\<rparr>]\<rparr>"

text \<open>The block under \<^verbatim>\<open>if position > 0:\<close> (highest price, fixed and trailing stop). The
  return it tests is the close against the previous bar's close. \<^verbatim>\<open>iloc[i-1]\<close> at
  \<open>i = 0\<close> would be the last row.\<close>

definition stop_block_v2 :: "bar list \<Rightarrow> nat \<Rightarrow> ledger_row_v2 state_v2 \<Rightarrow> error + ledger_row_v2 state_v2" where
  "stop_block_v2 data i s =
     (let current_price = close (data ! i);
          prev_close = close (if i = 0 then last data else data ! (i - 1))
      in if position s > 0 then
           (let highest = max (highest_price s) current_price
            in if prev_close = 0 then Inl NonFinite
               else
                 let position_return = current_price / prev_close - 1;
                     trailing_stop_price = highest * (1 - trailing_stop_v2)
                 in if position_return < stop_loss_v2 \<or> current_price < trailing_stop_price then
                      Inr (s\<lparr>cash := cash s + (real_of_int (position s) * current_price
                                - calculate_transaction_costs commission_v2 slippage_v2
                                    current_price (real_of_int (position s))),
                             position := 0, highest_price := 0\<rparr>)
                    else Inr (s\<lparr>highest_price := highest\<rparr>))
         else Inr s)"

text \<open>The \<^verbatim>\<open>if buy_signal ... elif sell_signal ...\<close> statement. \<open>total_value\<close> was computed
  at the top of the loop body, before the stop block.\<close>

definition trade_block_v2 :: "bar list \<Rightarrow> nat \<Rightarrow> real \<Rightarrow> ledger_row_v2 state_v2 \<Rightarrow> error + ledger_row_v2 state_v2" where
  "trade_block_v2 data i total_value s =
     (let current_price = close (data ! i);
          current_volatility = volatility (data ! i)
      in if buy_signal (data ! i) \<and> position s = 0 then
           (let position_size = calculate_position_size_v2 (cash s) current_price current_volatility;
                max_buy_value = total_value * position_size
            in if current_price = 0 then Inl NonFinite
               else
                 let shares_to_buy = \<lfloor>max_buy_value / current_price\<rfloor>
                 in if shares_to_buy > 0 then
                      (let transaction_costs = calculate_transaction_costs commission_v2 slippage_v2
                                                 current_price (real_of_int shares_to_buy);
                           total_cost = real_of_int shares_to_buy * current_price + transaction_costs
                       in if total_cost \<le> cash s then
                            Inr (s\<lparr>position := shares_to_buy, cash := cash s - total_cost,
                                   highest_price := current_price\<rparr>)
                          else Inr s)
                    else Inr s)
         else if sell_signal (data ! i) \<and> position s > 0 then
           Inr (s\<lparr>cash := cash s + (real_of_int (position s) * current_price
                     - calculate_transaction_costs commission_v2 slippage_v2
                         current_price (real_of_int (position s))),
                  position := 0, highest_price := 0\<rparr>)
         else Inr s)"

definition step_v2 :: "bar list \<Rightarrow> nat \<Rightarrow> ledger_row_v2 state_v2 \<Rightarrow> error + ledger_row_v2 state_v2" where
  "step_v2 data i s =
     (if length data \<le> i then Inl IndexError
      else
        let total_value = cash s + real_of_int (position s) * close (data ! i)
        in case stop_block_v2 data i s of
             Inl e \<Rightarrow> Inl e
           | Inr s1 \<Rightarrow>
               (case trade_block_v2 data i total_value s1 of
                  Inl e \<Rightarrow> Inl e
                | Inr s2 \<Rightarrow> Inr (emit_v2 data i s2)))"

definition bars_v2 :: "bar list \<Rightarrow> nat list" where
  "bars_v2 data = [20 ..< length data]"

definition init_v2 :: "real \<Rightarrow> ledger_row_v2 state_v2" where
  "init_v2 initial_cash = \<lparr>cash = initial_cash, position = 0, history = [], highest_price = 0\<rparr>"

definition backtest_v2 :: "bar list \<Rightarrow> real \<Rightarrow> error + ledger_row_v2 state_v2" where
  "backtest_v2 data initial_cash = run_bars (step_v2 data) (bars_v2 data) (init_v2 initial_cash)"

section \<open>Variant 3: \<^verbatim>\<open>TQQQStrategyV3\<close>\<close>

text \<open>The constructor arguments of \<^verbatim>\<open>TQQQStrategyV3\<close> and their defaults.\<close>

record params =
  buy_threshold :: real
  sell_threshold :: real
  max_position :: real
  stop_loss :: real
  trailing_stop :: real
  commission :: real
  slippage :: real
  vol_threshold :: real
  partial_sell_ratio :: real
  partial_sell_gain :: real
  atr_period :: nat
  atr_multiplier :: real

definition default_params :: params where
  "default_params =
     \<lparr>buy_threshold = 0.005, sell_threshold = - 0.008, max_position = 0.8,
      stop_loss = 0.07, trailing_stop = 0.10, commission = 0.0003, slippage = 0.0002,
      vol_threshold = 0.03, partial_sell_ratio = 0.4, partial_sell_gain = 0.03,
      atr_period = 14, atr_multiplier = 3.5\<rparr>"

subsection \<open>Crossover and trend columns (\<^verbatim>\<open>prepare_data\<close>)\<close>

text \<open>\<^verbatim>\<open>(a > b).astype(int)\<close>: 1 where the comparison holds, 0 where it fails or a side is NaN.\<close>

definition gt_flag :: "real option \<Rightarrow> real option \<Rightarrow> int" where
  "gt_flag a b = (case (a, b) of (Some x, Some y) \<Rightarrow> (if x > y then 1 else 0) | _ \<Rightarrow> 0)"

definition ma_cross :: "bar \<Rightarrow> int" where
  "ma_cross b = gt_flag (ma_2 b) (ma_7 b)"

definition ma_trend :: "bar \<Rightarrow> int" where
  "ma_trend b = gt_flag (ma_7 b) (ma_20 b)"

definition ma_long_trend :: "bar \<Rightarrow> int" where
  "ma_long_trend b = gt_flag (ma_20 b) (ma_50 b)"

subsection \<open>\<^verbatim>\<open>generate_signals\<close>\<close>

text \<open>\<^verbatim>\<open>self.data['ma_cross'].shift(1)\<close>: the previous row's value, NaN on the first row.\<close>

definition ma_cross_shift1 :: "bar list \<Rightarrow> nat \<Rightarrow> int option" where
  "ma_cross_shift1 data i = (if i = 0 then None else Some (ma_cross (data ! (i - 1))))"

text \<open>The six columns of the \<^verbatim>\<open>buy_conditions\<close> frame at row \<open>i\<close>, each cast to int.\<close>

definition buy_conditions :: "params \<Rightarrow> bar list \<Rightarrow> nat \<Rightarrow> int list" where
  "buy_conditions p data i =
     (let b = data ! i
      in [of_bool (case ma_cross_shift1 data i of None \<Rightarrow> False | Some c \<Rightarrow> ma_cross b > c),
          of_bool (ma_trend b = 1),
          of_bool (ma_long_trend b = 1),
          of_bool (nan_greater (rsi b) 45 \<and> nan_less (rsi b) 75),
          of_bool (nan_less (volatility b) (vol_threshold p * 1.2)),
          of_bool (nan_greater (momentum b) (- 0.01) \<and> nan_greater (momentum_20 b) 0)])"

definition buy_score :: "params \<Rightarrow> bar list \<Rightarrow> nat \<Rightarrow> int" where
  "buy_score p data i = sum_list (buy_conditions p data i)"

definition sell_condition :: "params \<Rightarrow> bar list \<Rightarrow> nat \<Rightarrow> bool" where
  "sell_condition p data i =
     (let b = data ! i
      in (case ma_cross_shift1 data i of None \<Rightarrow> False | Some c \<Rightarrow> ma_cross b < c) \<and>
         ((nan_less (rsi b) 35 \<or> nan_greater (rsi b) 85) \<or>
          (nan_greater (volatility b) (vol_threshold p * 2.5) \<and> nan_less (momentum b) 0)))"

definition generate_signals :: "params \<Rightarrow> bar list \<Rightarrow> bar list" where
  "generate_signals p data =
     map (\<lambda>i. (data ! i)\<lparr>buy_signal := (buy_score p data i \<ge> 4),
                          sell_signal := sell_condition p data i\<rparr>)
         [0 ..< length data]"

subsection \<open>\<^verbatim>\<open>calculate_position_size\<close>\<close>

text \<open>The RSI and the two trend flags are read with \<^verbatim>\<open>iloc[-1]\<close>, the last row of the
  frame. \<^verbatim>\<open>max(0.4, nan)\<close> is \<open>0.4\<close>; the comparisons of a NaN RSI all fail, which
  leaves \<open>rsi_adj = 0.8\<close>.\<close>

definition calculate_position_size :: "params \<Rightarrow> bar list \<Rightarrow> real \<Rightarrow> real \<Rightarrow> real option \<Rightarrow> error + int" where
  "calculate_position_size p data cash0 price vol =
     (if data = [] then Inl IndexError
      else if vol \<noteq> None \<and> vol_threshold p * 1.5 = 0 then Inl NonFinite
      else
        let base_position = max_position p;
            vol_adj = (case vol of None \<Rightarrow> 0.4
                       | Some v \<Rightarrow> max 0.4 (1 - v / (vol_threshold p * 1.5)));
            r = rsi (last data);
            rsi_adj = (if nan_less r 30 \<or> nan_greater r 70 then 0.6
                       else if (case r of None \<Rightarrow> False | Some v \<Rightarrow> 45 \<le> v \<and> v \<le> 65) then 1.0
                       else 0.8);
            trend_adj = (if ma_long_trend (last data) = 1
                         then (if ma_trend (last data) = 1 then 1.2 else 1.0)
                         else 1.0);
            adjusted_position = base_position * vol_adj * rsi_adj * trend_adj;
            max_buy_value = cash0 * adjusted_position
        in if price = 0 then Inl NonFinite else Inr \<lfloor>max_buy_value / price\<rfloor>)"

subsection \<open>\<^verbatim>\<open>backtest\<close>\<close>

definition emit_v3 :: "bar list \<Rightarrow> nat \<Rightarrow> ledger_row_v3 state_v3 \<Rightarrow> ledger_row_v3 state_v3" where
  "emit_v3 data i s =
     s\<lparr>history := history s @
        [\<lparr>date = i, row_cash = cash s, row_position = position s,
          row_portfolio_value = cash s + real_of_int (position s) * close (data ! i),
          row_close = close (data ! i), row_signal = signal_of (data ! i),
          row_volatility = volatility (data ! i),
          row_ATR = ATR (data ! i), row_rsi = rsi (data ! i)\<rparr>]\<rparr>"

text \<open>\<^verbatim>\<open>current_price - self.atr_multiplier * current_atr\<close>, NaN while the ATR is NaN.\<close>

definition atr_stop_level :: "params \<Rightarrow> real \<Rightarrow> real option \<Rightarrow> real option" where
  "atr_stop_level p current_price current_atr =
     (case current_atr of None \<Rightarrow> None
      | Some a \<Rightarrow> Some (current_price - atr_multiplier p * a))"

text \<open>The flag \<^verbatim>\<open>should_stop_loss\<close>: fixed stop against the average cost, then the
  trailing stop against the updated highest price, then the ATR stop.\<close>

definition should_stop_loss :: "params \<Rightarrow> ('r, 'z) state_v3_scheme \<Rightarrow> real \<Rightarrow> real option \<Rightarrow> bool" where
  "should_stop_loss p s current_price current_atr =
     (let highest = max (highest_price s) current_price;
          atr_stop = atr_stop_level p current_price current_atr;
          trailing_stop_price = highest * (1 - trailing_stop p)
      in if current_price / avg_cost s - 1 < - stop_loss p then True
         else if current_price < trailing_stop_price then True
         else if nan_greater atr_stop current_price then True
         else False)"

text \<open>The block under \<^verbatim>\<open>if position > 0:\<close>: the three stops, then the partial
  profit-taking. The boolean of the result says whether \<^verbatim>\<open>continue\<close> was executed.\<close>

definition long_block_v3 :: "params \<Rightarrow> bar list \<Rightarrow> nat \<Rightarrow> ledger_row_v3 state_v3 \<Rightarrow> error + (bool \<times> ledger_row_v3 state_v3)" where
  "long_block_v3 p data i s =
     (let current_price = close (data ! i);
          current_atr = ATR (data ! i)
      in if position s > 0 then
           (let highest = max (highest_price s) current_price;
                s1 = s\<lparr>highest_price := highest,
                       atr_stop_price := atr_stop_level p current_price current_atr\<rparr>
            in if avg_cost s = 0 then Inl NonFinite
               else
                 let unrealized_pnl = (current_price - avg_cost s) / avg_cost s
                 in if should_stop_loss p s current_price current_atr then
                      Inr (True,
                           s1\<lparr>cash := cash s + (real_of_int (position s) * current_price
                                  - calculate_transaction_costs (commission p) (slippage p)
                                      current_price (real_of_int (position s))),
                              position := 0, highest_price := 0, atr_stop_price := Some 0\<rparr>)
                    else if unrealized_pnl \<ge> partial_sell_gain p then
                      (let sell_ratio = min 0.8 (partial_sell_ratio p * (1 + unrealized_pnl));
                           shares_to_sell = py_int (real_of_int (position s) * sell_ratio)
                       in if shares_to_sell > 0 then
                            Inr (False,
                                 s1\<lparr>cash := cash s + (real_of_int shares_to_sell * current_price
                                        - calculate_transaction_costs (commission p) (slippage p)
                                            current_price (real_of_int shares_to_sell)),
                                    position := position s - shares_to_sell\<rparr>)
                          else Inr (False, s1))
                    else Inr (False, s1))
         else Inr (False, s))"

text \<open>The \<^verbatim>\<open>if buy_signal ... elif sell_signal ...\<close> statement.\<close>

definition trade_block_v3 :: "params \<Rightarrow> bar list \<Rightarrow> nat \<Rightarrow> ledger_row_v3 state_v3 \<Rightarrow> error + ledger_row_v3 state_v3" where
  "trade_block_v3 p data i s =
     (let current_price = close (data ! i);
          current_volatility = volatility (data ! i);
          current_atr = ATR (data ! i)
      in if buy_signal (data ! i) \<and> position s = 0 then
           (case calculate_position_size p data (cash s) current_price current_volatility of
              Inl e \<Rightarrow> Inl e
            | Inr shares_to_buy \<Rightarrow>
                if shares_to_buy > 0 then
                  (let transaction_costs = calculate_transaction_costs (commission p) (slippage p)
                                             current_price (real_of_int shares_to_buy);
                       total_cost = real_of_int shares_to_buy * current_price + transaction_costs
                   in if total_cost \<le> cash s then
                        Inr (s\<lparr>position := shares_to_buy, avg_cost := current_price,
                               cash := cash s - total_cost, highest_price := current_price,
                               atr_stop_price := atr_stop_level p current_price current_atr\<rparr>)
                      else Inr s)
                else Inr s)
         else if sell_signal (data ! i) \<and> position s > 0 then
           Inr (s\<lparr>cash := cash s + (real_of_int (position s) * current_price
                     - calculate_transaction_costs (commission p) (slippage p)
                         current_price (real_of_int (position s))),
                  position := 0, highest_price := 0, atr_stop_price := Some 0\<rparr>)
         else Inr s)"

text \<open>One pass of the loop body. After a stop the body ends at \<^verbatim>\<open>continue\<close>, before
  \<^verbatim>\<open>history.append\<close>.\<close>

definition step_v3 :: "params \<Rightarrow> bar list \<Rightarrow> nat \<Rightarrow> ledger_row_v3 state_v3 \<Rightarrow> error + ledger_row_v3 state_v3" where
  "step_v3 p data i s =
     (if length data \<le> i then Inl IndexError
      else
        case long_block_v3 p data i s of
          Inl e \<Rightarrow> Inl e
        | Inr (stopped, s1) \<Rightarrow>
            if stopped then Inr s1
            else (case trade_block_v3 p data i s1 of
                    Inl e \<Rightarrow> Inl e
                  | Inr s2 \<Rightarrow> Inr (emit_v3 data i s2)))"

definition bars_v3 :: "params \<Rightarrow> bar list \<Rightarrow> nat list" where
  "bars_v3 p data = [max 50 (atr_period p) ..< length data]"

definition init_v3 :: "real \<Rightarrow> ledger_row_v3 state_v3" where
  "init_v3 initial_cash =
     \<lparr>cash = initial_cash, position = 0, history = [], highest_price = 0,
      avg_cost = 0, atr_stop_price = Some 0\<rparr>"

text \<open>\<^verbatim>\<open>backtest\<close> first calls \<^verbatim>\<open>generate_signals\<close>, which writes the two signal columns.\<close>

definition backtest_v3 :: "params \<Rightarrow> bar list \<Rightarrow> real \<Rightarrow> error + ledger_row_v3 state_v3" where
  "backtest_v3 p data initial_cash =
     (let data' = generate_signals p data
      in run_bars (step_v3 p data') (bars_v3 p data') (init_v3 initial_cash))"

section \<open>\<^verbatim>\<open>calculate_rsi\<close>\<close>

text \<open>\<^verbatim>\<open>series.diff()\<close>: NaN on the first row.\<close>

definition diff :: "real list \<Rightarrow> real option list" where
  "diff series =
     map (\<lambda>i. if i = 0 then None else Some (series ! i - series ! (i - 1))) [0 ..< length series]"

text \<open>\<^verbatim>\<open>delta.where(delta > 0, 0)\<close> keeps a cell where the condition holds and puts 0
  elsewhere, also where the cell is NaN.\<close>

definition where_pos :: "real option \<Rightarrow> real" where
  "where_pos d = (case d of None \<Rightarrow> 0 | Some x \<Rightarrow> if x > 0 then x else 0)"

definition where_neg :: "real option \<Rightarrow> real" where
  "where_neg d = (case d of None \<Rightarrow> 0 | Some x \<Rightarrow> if x < 0 then x else 0)"

text \<open>\<^verbatim>\<open>rolling(window).mean()\<close> of a column without NaN: NaN until \<open>window\<close> rows are
  there, then the mean of the last \<open>window\<close> rows.\<close>

definition rolling_mean :: "nat \<Rightarrow> real list \<Rightarrow> nat \<Rightarrow> real option" where
  "rolling_mean window xs i =
     (if window = 0 \<or> i + 1 < window then None
      else Some (sum_list (take window (drop (i + 1 - window) xs)) / real window))"

text \<open>\<^verbatim>\<open>loss.replace({0: 1e-10})\<close>.\<close>

definition replace_zero :: "real option \<Rightarrow> real option" where
  "replace_zero l = (case l of None \<Rightarrow> None | Some v \<Rightarrow> Some (if v = 0 then 1 / 10 ^ 10 else v))"

text \<open>One cell of the result. The two divisions are \<^verbatim>\<open>gain / loss\<close> and
  \<^verbatim>\<open>100 / (1 + rs)\<close>; a zero divisor is the outcome \<open>Inl NonFinite\<close>.\<close>

definition rsi_cell :: "real option \<Rightarrow> real option \<Rightarrow> error + real option" where
  "rsi_cell gain loss =
     (case (gain, replace_zero loss) of
        (Some g, Some l) \<Rightarrow>
          if l = 0 then Inl NonFinite
          else let rs = g / l
               in if 1 + rs = 0 then Inl NonFinite else Inr (Some (100 - 100 / (1 + rs)))
      | _ \<Rightarrow> Inr None)"

definition calculate_rsi :: "real list \<Rightarrow> nat \<Rightarrow> (error + real option) list" where
  "calculate_rsi series period =
     (let delta = diff series;
          gain = rolling_mean period (map where_pos delta);
          loss = rolling_mean period (map (\<lambda>d. - where_neg d) delta)
      in map (\<lambda>i. rsi_cell (gain i) (loss i)) [0 ..< length series])"

section \<open>Runs and sample frames\<close>

text \<open>The state after the first \<open>k\<close> bars of a back-test; the whole back-test is the case
  where \<open>k\<close> is the number of bars of the loop.\<close>

definition after_bars_v1 :: "bar list \<Rightarrow> real \<Rightarrow> nat \<Rightarrow> error + ledger_row state" where
  "after_bars_v1 data initial_cash k =
     run_bars (step_v1 data) (take k (bars_v1 data)) (init_v1 initial_cash)"

definition after_bars_v2 :: "bar list \<Rightarrow> real \<Rightarrow> nat \<Rightarrow> error + ledger_row_v2 state_v2" where
  "after_bars_v2 data initial_cash k =
     run_bars (step_v2 data) (take k (bars_v2 data)) (init_v2 initial_cash)"

definition after_bars_v3 :: "params \<Rightarrow> bar list \<Rightarrow> real \<Rightarrow> nat \<Rightarrow> error + ledger_row_v3 state_v3" where
  "after_bars_v3 p data initial_cash k =
     (let data' = generate_signals p data
      in run_bars (step_v3 p data') (take k (bars_v3 p data')) (init_v3 initial_cash))"


text \<open>Projections of a result, for stating what a run did.\<close>

definition final_position :: "error + ('r, 'z) state_scheme \<Rightarrow> int option" where
  "final_position r = (case r of Inl e \<Rightarrow> None | Inr s \<Rightarrow> Some (position s))"

definition ledger_positions :: "error + ('a ledger_row_scheme, 'z) state_scheme \<Rightarrow> (nat \<times> int) list option" where
  "ledger_positions r =
     (case r of Inl e \<Rightarrow> None | Inr s \<Rightarrow> Some (map (\<lambda>row. (date row, row_position row)) (history s)))"


definition ledger_dates :: "error + ('a ledger_row_scheme, 'z) state_scheme \<Rightarrow> nat list option" where
  "ledger_dates r = (case r of Inl e \<Rightarrow> None | Inr s \<Rightarrow> Some (map date (history s)))"

text \<open>Running one more piece of the loop body on the state a run has reached.\<close>

definition and_then :: "error + 's \<Rightarrow> ('s \<Rightarrow> error + 't) \<Rightarrow> error + 't" where
  "and_then r f = (case r of Inl e \<Rightarrow> Inl e | Inr s \<Rightarrow> f s)"

text \<open>
  Sample frames. \<open>sample_bar up i px\<close> is row \<open>i\<close> of a frame as \<^verbatim>\<open>prepare_data\<close> leaves
  it, with open and close \<open>px\<close>: every indicator is NaN during its warm-up and has a fixed
  value afterwards, the moving averages in rising order for \<open>up\<close> and in falling order
  otherwise. The signal columns are empty. An \<open>up\<close> row scores 4 from row 20 on and 5
  from row 49 on; a row that is not \<open>up\<close> scores at most 1 and has no sell signal.
\<close>

definition sample_bar :: "bool \<Rightarrow> nat \<Rightarrow> real \<Rightarrow> bar" where
  "sample_bar up i px =
     \<lparr>open_price = px, close = px,
      ma_2 = (if i < 1 then None else Some (if up then 101 else 99)),
      ma_7 = (if i < 6 then None else Some 100),
      ma_20 = (if i < 19 then None else Some (if up then 98 else 102)),
      ma_50 = (if i < 49 then None else Some (if up then 95 else 105)),
      volatility = (if i < 20 then None else Some 0.01),
      momentum = (if i < 5 then None else Some (if up then 0.02 else - 0.02)),
      momentum_20 = (if i < 20 then None else Some (if up then 0.05 else - 0.05)),
      ATR = (if i < 13 then None else Some 2),
      rsi = (if i < 13 then None else Some (if up then 55 else 40)),
      buy_signal = False, sell_signal = False\<rparr>"

definition sample_frame :: "bool \<Rightarrow> real list \<Rightarrow> bar list" where
  "sample_frame up closes = map (\<lambda>i. sample_bar up i (closes ! i)) [0 ..< length closes]"

definition with_buy_signal :: "nat \<Rightarrow> bar list \<Rightarrow> bar list" where
  "with_buy_signal i frame = frame[i := (frame ! i)\<lparr>buy_signal := True\<rparr>]"


text \<open>For variant 2: buy signals at bars 20 and 22, and a close of 94 at bar 22.\<close>

definition stop_and_buy_frame :: "bar list" where
  "stop_and_buy_frame =
     with_buy_signal 22 (with_buy_signal 20 (sample_frame False (replicate 22 100 @ [94])))"

text \<open>For variant 3: closes of 101 up to bar 50, then 90 at bar 51.\<close>

definition stop_frame_v3 :: "bar list" where
  "stop_frame_v3 = sample_frame True (replicate 51 101 @ [90])"

definition scored_stop_frame_v3 :: "bar list" where
  "scored_stop_frame_v3 = generate_signals default_params stop_frame_v3"




text \<open>A frame without signals in any variant.\<close>

definition quiet_frame :: "bar list" where
  "quiet_frame = sample_frame False (replicate 50 100 @ [120, 80, 95])"



section \<open>Lemmas about the loop and the arithmetic of trades\<close>

lemma run_bars_invariant:
  assumes "P s"
    and "\<And>i s. i \<in> set js \<Longrightarrow> P s \<Longrightarrow> \<exists>s'. f i s = Inr s' \<and> P s'"
  shows "\<exists>s'. run_bars f js s = Inr s' \<and> P s'"
  using assms
proof (induction js arbitrary: s)
  case Nil
  then show ?case by simp
next
  case (Cons j js)
  from Cons.prems obtain s1 where s1: "f j s = Inr s1" "P s1" by fastforce
  have "\<exists>s'. run_bars f js s1 = Inr s' \<and> P s'"
    by (rule Cons.IH) (use s1 Cons.prems in auto)
  then show ?case using s1 by simp
qed

lemma run_bars_trace:
  assumes "P s"
    and "\<And>i s. i \<in> set js \<Longrightarrow> P s \<Longrightarrow> \<exists>s'. f i s = Inr s' \<and> P s' \<and> h s' = h s @ [i]"
  shows "\<exists>s'. run_bars f js s = Inr s' \<and> P s' \<and> h s' = h s @ js"
  using assms
proof (induction js arbitrary: s)
  case Nil
  then show ?case by simp
next
  case (Cons j js)
  from Cons.prems obtain s1 where s1: "f j s = Inr s1" "P s1" "h s1 = h s @ [j]" by fastforce
  have "\<exists>s'. run_bars f js s1 = Inr s' \<and> P s' \<and> h s' = h s1 @ js"
    by (rule Cons.IH) (use s1 Cons.prems in auto)
  then show ?case using s1 by simp
qed

lemma floor_buy_affordable:
  fixes c px f :: real
  assumes "0 \<le> c" "0 < px" "0 \<le> f" "f \<le> 1"
  shows "0 \<le> \<lfloor>(c * f) / px\<rfloor>" and "real_of_int \<lfloor>(c * f) / px\<rfloor> * px \<le> c"
proof -
  have q: "0 \<le> (c * f) / px" using assms by simp
  then show "0 \<le> \<lfloor>(c * f) / px\<rfloor>" by simp
  have "real_of_int \<lfloor>(c * f) / px\<rfloor> \<le> (c * f) / px" by (rule of_int_floor_le)
  then have "real_of_int \<lfloor>(c * f) / px\<rfloor> * px \<le> (c * f) / px * px"
    by (rule mult_right_mono) (use assms(2) in simp)
  also have "\<dots> = c * f" using assms(2) by simp
  also have "\<dots> \<le> c" using assms by (simp add: mult_left_le)
  finally show "real_of_int \<lfloor>(c * f) / px\<rfloor> * px \<le> c" .
qed

lemma sale_proceeds_nonneg:
  fixes px n c sl :: real
  assumes "0 \<le> n" "0 \<le> px" "c + sl \<le> 1"
  shows "0 \<le> n * px - calculate_transaction_costs c sl px n"
proof -
  have "n * px - calculate_transaction_costs c sl px n = (n * px) * (1 - (c + sl))"
    by (simp add: calculate_transaction_costs_def algebra_simps)
  moreover have "0 \<le> (n * px) * (1 - (c + sl))" using assms by simp
  ultimately show ?thesis by simp
qed

lemma emit_v1_fields:
  "cash (emit_v1 data i s) = cash s" "position (emit_v1 data i s) = position s"
  "map date (history (emit_v1 data i s)) = map date (history s) @ [i]"
  by (simp_all add: emit_v1_def)

lemma step_v1_ok:
  assumes i: "i + 1 < length data"
    and px: "\<forall>b\<in>set data. 0 < open_price b"
    and inv: "0 \<le> cash s \<and> 0 \<le> position s"
  shows "\<exists>s'. step_v1 data i s = Inr s' \<and> (0 \<le> cash s' \<and> 0 \<le> position s')
            \<and> map date (history s') = map date (history s) @ [i]"
proof -
  let ?o = "open_price (data ! (i + 1))"
  have o: "0 < ?o" using i px by simp
  show ?thesis
  proof (cases "buy_signal (data ! i) \<and> position s = 0")
    case True
    have a: "0 \<le> \<lfloor>(cash s * 0.97) / ?o\<rfloor>"
      and b: "real_of_int \<lfloor>(cash s * 0.97) / ?o\<rfloor> * ?o \<le> cash s"
      using floor_buy_affordable [of "cash s" ?o "0.97"] inv o by simp_all
    show ?thesis using True i o a b
      by (simp add: step_v1_def Let_def emit_v1_fields)
  next
    case False
    have "0 \<le> real_of_int (position s) * ?o" using inv o by simp
    then show ?thesis using False i inv
      by (auto simp add: step_v1_def Let_def emit_v1_fields)
  qed
qed

lemma in_bars_v1: "i \<in> set (bars_v1 data) \<Longrightarrow> i + 1 < length data"
  by (auto simp add: bars_v1_def)

lemma emit_v2_fields:
  "cash (emit_v2 data i s) = cash s" "position (emit_v2 data i s) = position s"
  "map date (history (emit_v2 data i s)) = map date (history s) @ [i]"
  by (simp_all add: emit_v2_def)

lemma stop_block_v2_ok:
  assumes i: "i < length data"
    and px: "\<forall>b\<in>set data. 0 < close b"
    and inv: "0 \<le> cash s \<and> 0 \<le> position s"
  shows "\<exists>s'. stop_block_v2 data i s = Inr s' \<and> (0 \<le> cash s' \<and> 0 \<le> position s')
            \<and> history s' = history s"
proof -
  have ne: "data \<noteq> []" using i by auto
  have prev: "0 < close (if i = 0 then last data else data ! (i - 1))"
    using i px ne by (auto simp add: last_in_set)
  have cur: "0 < close (data ! i)" using i px by simp
  have sale: "0 \<le> real_of_int (position s) * close (data ! i)
                 - calculate_transaction_costs commission_v2 slippage_v2 (close (data ! i))
                     (real_of_int (position s))"
    by (rule sale_proceeds_nonneg) (use inv cur in \<open>simp_all add: commission_v2_def slippage_v2_def\<close>)
  show ?thesis using prev inv sale
    by (simp add: stop_block_v2_def Let_def)
qed

lemma trade_block_v2_ok:
  assumes i: "i < length data"
    and px: "\<forall>b\<in>set data. 0 < close b"
    and inv: "0 \<le> cash s \<and> 0 \<le> position s"
  shows "\<exists>s'. trade_block_v2 data i tv s = Inr s' \<and> (0 \<le> cash s' \<and> 0 \<le> position s')
            \<and> history s' = history s"
proof -
  have cur: "0 < close (data ! i)" using i px by simp
  have sale: "0 \<le> real_of_int (position s) * close (data ! i)
                 - calculate_transaction_costs commission_v2 slippage_v2 (close (data ! i))
                     (real_of_int (position s))"
    by (rule sale_proceeds_nonneg) (use inv cur in \<open>simp_all add: commission_v2_def slippage_v2_def\<close>)
  show ?thesis using cur inv sale
    by (auto simp add: trade_block_v2_def Let_def)
qed

lemma step_v2_ok:
  assumes i: "i < length data"
    and px: "\<forall>b\<in>set data. 0 < close b"
    and inv: "0 \<le> cash s \<and> 0 \<le> position s"
  shows "\<exists>s'. step_v2 data i s = Inr s' \<and> (0 \<le> cash s' \<and> 0 \<le> position s')
            \<and> map date (history s') = map date (history s) @ [i]"
proof -
  obtain s1 where s1: "stop_block_v2 data i s = Inr s1" "0 \<le> cash s1 \<and> 0 \<le> position s1"
      "history s1 = history s"
    using stop_block_v2_ok [OF i px inv] by blast
  obtain s2 where s2: "trade_block_v2 data i (cash s + real_of_int (position s) * close (data ! i)) s1 = Inr s2"
      "0 \<le> cash s2 \<and> 0 \<le> position s2" "history s2 = history s1"
    using trade_block_v2_ok [OF i px s1(2)] by blast
  show ?thesis using i s1 s2
    by (simp add: step_v2_def Let_def emit_v2_fields)
qed

lemma py_int_partial:
  assumes "0 < n" "r \<le> 0.8"
  shows "py_int (real_of_int n * r) < n"
proof (cases "0 \<le> real_of_int n * r")
  case True
  have "real_of_int n * r \<le> real_of_int n * 0.8"
    by (rule mult_left_mono) (use assms in simp_all)
  also have "\<dots> < real_of_int n" using assms(1) by simp
  finally have "\<lfloor>real_of_int n * r\<rfloor> < n" by (simp add: floor_less_iff)
  then show ?thesis using True by (simp add: py_int_def)
next
  case False
  then have "\<lceil>real_of_int n * r\<rceil> \<le> 0" by (simp add: ceiling_le_iff)
  then have "\<lceil>real_of_int n * r\<rceil> < n" using assms(1) by linarith
  then show ?thesis using False by (simp add: py_int_def)
qed


lemma emit_v3_fields:
  "cash (emit_v3 data i s) = cash s" "position (emit_v3 data i s) = position s"
  "avg_cost (emit_v3 data i s) = avg_cost s"
  "map date (history (emit_v3 data i s)) = map date (history s) @ [i]"
  by (simp_all add: emit_v3_def)

lemma long_block_v3_ok:
  assumes i: "i < length data"
    and px: "\<forall>b\<in>set data. 0 < close b"
    and rates: "commission p + slippage p \<le> 1"
    and inv: "0 \<le> cash s \<and> 0 \<le> position s \<and> (0 < position s \<longrightarrow> 0 < avg_cost s)"
  shows "case long_block_v3 p data i s of
           Inl e \<Rightarrow> False
         | Inr (stopped, s') \<Rightarrow>
             (0 \<le> cash s' \<and> 0 \<le> position s' \<and> (0 < position s' \<longrightarrow> 0 < avg_cost s'))
             \<and> history s' = history s"
proof (cases "0 < position s")
  case False
  then show ?thesis using inv by (simp add: long_block_v3_def Let_def)
next
  case True
  let ?px = "close (data ! i)"
  let ?n = "py_int (real_of_int (position s) *
              min 0.8 (partial_sell_ratio p * (1 + (?px - avg_cost s) / avg_cost s)))"
  have cur: "0 < ?px" using i px by simp
  have avg: "0 < avg_cost s" using inv True by simp
  have sale: "\<And>n. 0 \<le> n \<Longrightarrow> 0 \<le> real_of_int n * ?px
                 - calculate_transaction_costs (commission p) (slippage p) ?px (real_of_int n)"
    by (rule sale_proceeds_nonneg) (use cur rates in simp_all)
  have nlt: "?n < position s"
    by (rule py_int_partial) (rule True, rule min.cobounded1)
  have sale_n: "0 < ?n \<Longrightarrow> 0 \<le> real_of_int ?n * ?px
                 - calculate_transaction_costs (commission p) (slippage p) ?px (real_of_int ?n)"
    using sale [of ?n] by simp
  have sale_all: "0 \<le> real_of_int (position s) * ?px
                 - calculate_transaction_costs (commission p) (slippage p) ?px (real_of_int (position s))"
    using sale [of "position s"] inv by simp
  show ?thesis using True avg inv nlt sale_n sale_all
    by (auto simp add: long_block_v3_def Let_def)
qed

lemma calculate_position_size_ok:
  assumes "data \<noteq> []" "price \<noteq> 0" "vol_threshold p \<noteq> 0"
  shows "\<exists>n. calculate_position_size p data c price vol = Inr n"
  using assms by (simp add: calculate_position_size_def Let_def)

lemma trade_block_v3_ok:
  assumes i: "i < length data"
    and px: "\<forall>b\<in>set data. 0 < close b"
    and rates: "commission p + slippage p \<le> 1"
    and vt: "vol_threshold p \<noteq> 0"
    and inv: "0 \<le> cash s \<and> 0 \<le> position s \<and> (0 < position s \<longrightarrow> 0 < avg_cost s)"
  shows "\<exists>s'. trade_block_v3 p data i s = Inr s'
            \<and> (0 \<le> cash s' \<and> 0 \<le> position s' \<and> (0 < position s' \<longrightarrow> 0 < avg_cost s'))
            \<and> history s' = history s"
proof -
  let ?px = "close (data ! i)"
  have cur: "0 < ?px" using i px by simp
  have ne: "data \<noteq> []" using i by auto
  obtain n where n: "calculate_position_size p data (cash s) ?px (volatility (data ! i)) = Inr n"
    using calculate_position_size_ok [OF ne _ vt, of ?px] cur by fastforce
  have sale_all: "0 \<le> real_of_int (position s) * ?px
                 - calculate_transaction_costs (commission p) (slippage p) ?px (real_of_int (position s))"
    by (rule sale_proceeds_nonneg) (use cur rates inv in simp_all)
  show ?thesis using n cur inv sale_all
    by (auto simp add: trade_block_v3_def Let_def)
qed

lemma step_v3_ok:
  assumes i: "i < length data"
    and px: "\<forall>b\<in>set data. 0 < close b"
    and rates: "commission p + slippage p \<le> 1"
    and vt: "vol_threshold p \<noteq> 0"
    and inv: "0 \<le> cash s \<and> 0 \<le> position s \<and> (0 < position s \<longrightarrow> 0 < avg_cost s)"
  shows "\<exists>s'. step_v3 p data i s = Inr s'
            \<and> (0 \<le> cash s' \<and> 0 \<le> position s' \<and> (0 < position s' \<longrightarrow> 0 < avg_cost s'))"
proof -
  obtain stopped s1 where s1: "long_block_v3 p data i s = Inr (stopped, s1)"
      "0 \<le> cash s1 \<and> 0 \<le> position s1 \<and> (0 < position s1 \<longrightarrow> 0 < avg_cost s1)"
    using long_block_v3_ok [OF i px rates inv] by (auto split: sum.splits)
  obtain s2 where s2: "trade_block_v3 p data i s1 = Inr s2"
      "0 \<le> cash s2 \<and> 0 \<le> position s2 \<and> (0 < position s2 \<longrightarrow> 0 < avg_cost s2)"
    using trade_block_v3_ok [OF i px rates vt s1(2)] by blast
  show ?thesis using i s1 s2
    by (simp add: step_v3_def emit_v3_fields)
qed


lemma generate_signals_positive:
  assumes "\<forall>b\<in>set data. 0 < close b"
  shows "\<forall>b\<in>set (generate_signals p data). 0 < close b"
  using assms by (auto simp add: generate_signals_def)

lemma in_bars_v2: "i \<in> set (bars_v2 data) \<Longrightarrow> i < length data"
  by (auto simp add: bars_v2_def)

lemma in_bars_v3: "i \<in> set (bars_v3 p data) \<Longrightarrow> i < length data"
  by (auto simp add: bars_v3_def)

lemma after_bars_v1_nonneg:
  assumes "0 \<le> c" and px: "\<forall>b\<in>set data. 0 < open_price b"
  shows "\<exists>s. after_bars_v1 data c k = Inr s \<and> (0 \<le> cash s \<and> 0 \<le> position s)"
  unfolding after_bars_v1_def
proof (rule run_bars_invariant)
  show "0 \<le> cash (init_v1 c) \<and> 0 \<le> position (init_v1 c)"
    using assms(1) by (simp add: init_v1_def)
next
  fix i and s :: "ledger_row state"
  assume "i \<in> set (take k (bars_v1 data))" and inv: "0 \<le> cash s \<and> 0 \<le> position s"
  then have "i + 1 < length data" by (meson in_set_takeD in_bars_v1)
  from step_v1_ok [OF this px inv]
  show "\<exists>s'. step_v1 data i s = Inr s' \<and> (0 \<le> cash s' \<and> 0 \<le> position s')" by blast
qed

lemma after_bars_v2_nonneg:
  assumes "0 \<le> c" and px: "\<forall>b\<in>set data. 0 < close b"
  shows "\<exists>s. after_bars_v2 data c k = Inr s \<and> (0 \<le> cash s \<and> 0 \<le> position s)"
  unfolding after_bars_v2_def
proof (rule run_bars_invariant)
  show "0 \<le> cash (init_v2 c) \<and> 0 \<le> position (init_v2 c)"
    using assms(1) by (simp add: init_v2_def)
next
  fix i and s :: "ledger_row_v2 state_v2"
  assume "i \<in> set (take k (bars_v2 data))" and inv: "0 \<le> cash s \<and> 0 \<le> position s"
  then have "i < length data" by (meson in_set_takeD in_bars_v2)
  from step_v2_ok [OF this px inv]
  show "\<exists>s'. step_v2 data i s = Inr s' \<and> (0 \<le> cash s' \<and> 0 \<le> position s')" by blast
qed

lemma after_bars_v3_nonneg:
  assumes "0 \<le> c" and px: "\<forall>b\<in>set data. 0 < close b"
    and rates: "commission p + slippage p \<le> 1" and vt: "vol_threshold p \<noteq> 0"
  shows "\<exists>s. after_bars_v3 p data c k = Inr s \<and> (0 \<le> cash s \<and> 0 \<le> position s)"
proof -
  let ?d = "generate_signals p data"
  have px': "\<forall>b\<in>set ?d. 0 < close b" by (rule generate_signals_positive [OF px])
  have "\<exists>s. run_bars (step_v3 p ?d) (take k (bars_v3 p ?d)) (init_v3 c) = Inr s
          \<and> (0 \<le> cash s \<and> 0 \<le> position s \<and> (0 < position s \<longrightarrow> 0 < avg_cost s))"
  proof (rule run_bars_invariant)
    show "0 \<le> cash (init_v3 c) \<and> 0 \<le> position (init_v3 c)
            \<and> (0 < position (init_v3 c) \<longrightarrow> 0 < avg_cost (init_v3 c))"
      using assms(1) by (simp add: init_v3_def)
  next
    fix i and s :: "ledger_row_v3 state_v3"
    assume "i \<in> set (take k (bars_v3 p ?d))"
      and inv: "0 \<le> cash s \<and> 0 \<le> position s \<and> (0 < position s \<longrightarrow> 0 < avg_cost s)"
    then have "i < length ?d" by (meson in_set_takeD in_bars_v3)
    from step_v3_ok [OF this px' rates vt inv]
    show "\<exists>s'. step_v3 p ?d i s = Inr s'
            \<and> (0 \<le> cash s' \<and> 0 \<le> position s' \<and> (0 < position s' \<longrightarrow> 0 < avg_cost s'))" .
  qed
  then show ?thesis by (auto simp add: after_bars_v3_def Let_def)
qed

lemma v1_zero_share_buy:
  assumes "i + 1 < length data" "buy_signal (data ! i)" "position s = 0"
    "open_price (data ! (i + 1)) \<noteq> 0"
    "\<lfloor>(cash s * 0.97) / open_price (data ! (i + 1))\<rfloor> = 0"
  shows "\<exists>s'. step_v1 data i s = Inr s' \<and> cash s' = cash s \<and> position s' = position s"
  using assms by (simp add: step_v1_def Let_def emit_v1_fields)

lemma v2_unaffordable_buy:
  assumes "i < length data" "buy_signal (data ! i)" "position s = 0" "close (data ! i) \<noteq> 0"
    and "n = \<lfloor>(cash s * calculate_position_size_v2 (cash s) (close (data ! i)) (volatility (data ! i)))
                / close (data ! i)\<rfloor>"
    and "n \<le> 0 \<or> cash s < real_of_int n * close (data ! i)
            + calculate_transaction_costs commission_v2 slippage_v2 (close (data ! i)) (real_of_int n)"
  shows "\<exists>s'. step_v2 data i s = Inr s' \<and> cash s' = cash s \<and> position s' = position s"
proof -
  have a: "stop_block_v2 data i s = Inr s" using assms(3) by (simp add: stop_block_v2_def Let_def)
  have b: "trade_block_v2 data i (cash s) s = Inr s"
    using assms(2-6) by (auto simp add: trade_block_v2_def Let_def)
  show ?thesis using assms(1,3) a b by (simp add: step_v2_def Let_def emit_v2_fields)
qed

lemma v3_unaffordable_buy:
  assumes "i < length data" "buy_signal (data ! i)" "position s = 0"
    and "calculate_position_size p data (cash s) (close (data ! i)) (volatility (data ! i)) = Inr n"
    and "n \<le> 0 \<or> cash s < real_of_int n * close (data ! i)
            + calculate_transaction_costs (commission p) (slippage p) (close (data ! i)) (real_of_int n)"
  shows "\<exists>s'. step_v3 p data i s = Inr s' \<and> cash s' = cash s \<and> position s' = position s"
proof -
  have a: "long_block_v3 p data i s = Inr (False, s)"
    using assms(3) by (simp add: long_block_v3_def Let_def)
  have b: "trade_block_v3 p data i s = Inr s"
    using assms(2-5) by (auto simp add: trade_block_v3_def Let_def)
  show ?thesis using assms(1) a b by (simp add: step_v3_def emit_v3_fields)
qed

section \<open>The scoring rule of variant 3\<close>

lemma buy_conditions_length: "length (buy_conditions p data i) = 6"
  by (simp add: buy_conditions_def Let_def)

lemma buy_conditions_binary: "set (buy_conditions p data i) \<subseteq> {0, 1}"
  by (auto simp add: buy_conditions_def Let_def of_bool_def)

lemma buy_score_range: "0 \<le> buy_score p data i \<and> buy_score p data i \<le> 6"
  by (simp add: buy_score_def buy_conditions_def Let_def of_bool_def)

lemma generate_signals_length: "length (generate_signals p data) = length data"
  by (simp add: generate_signals_def)

lemma generate_signals_buy:
  "i < length data \<Longrightarrow> buy_signal (generate_signals p data ! i) = (4 \<le> buy_score p data i)"
  by (simp add: generate_signals_def)


text \<open>
  Claim C6. In \<^verbatim>\<open>TQQQStrategyV3.generate_signals\<close>, on every row the six scoring
  sub-conditions are each 0 or 1, their sum \<open>buy_score\<close> lies between 0 and 6, and the
  \<open>buy_signal\<close> column is true exactly when the sum is at least 4; a score of exactly 4
  gives a buy signal.
\<close>

theorem v3_buy_iff_score_at_least_4:
  assumes "i < length data"
  shows "length (buy_conditions p data i) = 6 \<and> set (buy_conditions p data i) \<subseteq> {0, 1}
       \<and> buy_score p data i = sum_list (buy_conditions p data i)
       \<and> 0 \<le> buy_score p data i \<and> buy_score p data i \<le> 6
       \<and> (buy_signal (generate_signals p data ! i) \<longleftrightarrow> 4 \<le> buy_score p data i)
       \<and> (buy_score p data i = 4 \<longrightarrow> buy_signal (generate_signals p data ! i))"
  using assms buy_conditions_length buy_conditions_binary buy_score_range generate_signals_buy
  by (simp add: buy_score_def)


theorem v3_buy_iff_score_at_least_4_witness:
  "(48::nat) < length stop_frame_v3 \<and> buy_score default_params stop_frame_v3 48 = 4
   \<and> buy_signal (generate_signals default_params stop_frame_v3 ! 48)"
proof -
  have h: "(48::nat) < length stop_frame_v3" by code_simp
  have s: "buy_score default_params stop_frame_v3 48 = 4" by code_simp
  from v3_buy_iff_score_at_least_4 [OF h, of default_params] s h show ?thesis by simp
qed

section \<open>The RSI\<close>

lemma where_pos_nonneg: "0 \<le> where_pos d"
  by (simp add: where_pos_def split: option.splits)

lemma where_neg_nonpos: "where_neg d \<le> 0"
  by (simp add: where_neg_def split: option.splits)

lemma window_sum_nonneg:
  assumes "\<forall>x\<in>set xs. (0::real) \<le> x"
  shows "0 \<le> sum_list (take w (drop k xs))"
proof (rule sum_list_nonneg)
  fix x assume "x \<in> set (take w (drop k xs))"
  then have "x \<in> set xs" by (meson in_set_dropD in_set_takeD)
  with assms show "0 \<le> x" by simp
qed

lemma rolling_mean_nonneg:
  assumes "\<forall>x\<in>set xs. (0::real) \<le> x" and "rolling_mean w xs i = Some m"
  shows "0 \<le> m"
  using assms window_sum_nonneg [OF assms(1)]
  by (auto simp add: rolling_mean_def split: if_splits)

lemma rsi_cell_defined:
  assumes "\<And>g. gain = Some g \<Longrightarrow> 0 \<le> g" and "\<And>l. loss = Some l \<Longrightarrow> 0 \<le> l"
  shows "rsi_cell gain loss =
           (case (gain, loss) of
              (Some g, Some l) \<Rightarrow>
                 Inr (Some (100 - 100 / (1 + g / (if l = 0 then 1 / 10 ^ 10 else l))))
            | _ \<Rightarrow> Inr None)"
proof (cases gain)
  case None
  then show ?thesis by (simp add: rsi_cell_def)
next
  case (Some g)
  note g = this
  show ?thesis
  proof (cases loss)
    case None
    then show ?thesis using g by (simp add: rsi_cell_def replace_zero_def)
  next
    case (Some l)
    have g0: "0 \<le> g" using assms(1) g by simp
    have l0: "0 \<le> l" using assms(2) Some by simp
    define l' where "l' = (if l = 0 then 1 / 10 ^ 10 else l)"
    have l'pos: "0 < l'" using l0 by (simp add: l'_def)
    have "0 \<le> g / l'" using g0 l'pos by simp
    then have "1 + g / l' \<noteq> 0" by linarith
    then show ?thesis using g Some l'pos
      by (simp add: rsi_cell_def replace_zero_def l'_def Let_def)
  qed
qed


text \<open>
  Claim C8. In \<^verbatim>\<open>calculate_rsi\<close>, for every series and every row: if one of the two
  window means is still NaN the cell is NaN; otherwise the cell is
  \<open>100 - 100 / (1 + RS)\<close> with \<open>RS\<close> the average gain divided by the average loss, where an
  average loss of zero is replaced by \<open>1e-10\<close>. No cell is the outcome of a division by
  zero.
\<close>

theorem calculate_rsi_zero_loss_clamped:
  assumes "i < length series"
  shows "calculate_rsi series period ! i =
           (case (rolling_mean period (map where_pos (diff series)) i,
                  rolling_mean period (map (\<lambda>d. - where_neg d) (diff series)) i) of
              (Some avg_gain, Some avg_loss) \<Rightarrow>
                 Inr (Some (100 - 100 / (1 + avg_gain / (if avg_loss = 0 then 1 / 10 ^ 10 else avg_loss))))
            | _ \<Rightarrow> Inr None)
         \<and> (\<forall>e. calculate_rsi series period ! i \<noteq> Inl e)"
proof -
  let ?g = "rolling_mean period (map where_pos (diff series)) i"
  let ?l = "rolling_mean period (map (\<lambda>d. - where_neg d) (diff series)) i"
  have a: "\<And>g. ?g = Some g \<Longrightarrow> 0 \<le> g"
    by (rule rolling_mean_nonneg [where xs = "map where_pos (diff series)"])
       (auto simp add: where_pos_nonneg)
  have b: "\<And>l. ?l = Some l \<Longrightarrow> 0 \<le> l"
    by (rule rolling_mean_nonneg [where xs = "map (\<lambda>d. - where_neg d) (diff series)"])
       (auto simp add: where_neg_nonpos)
  have c: "calculate_rsi series period ! i = rsi_cell ?g ?l"
    using assms by (simp add: calculate_rsi_def Let_def)
  have d: "rsi_cell ?g ?l =
           (case (?g, ?l) of
              (Some g, Some l) \<Rightarrow>
                 Inr (Some (100 - 100 / (1 + g / (if l = 0 then 1 / 10 ^ 10 else l))))
            | _ \<Rightarrow> Inr None)"
    by (rule rsi_cell_defined) (fact a, fact b)
  show ?thesis
    unfolding c d by (simp split: option.splits)
qed


theorem calculate_rsi_zero_loss_clamped_witness:
  "(2::nat) < length [1, 2, 3, 3, 3, 2 :: real]
   \<and> rolling_mean 2 (map (\<lambda>d. - where_neg d) (diff [1, 2, 3, 3, 3, 2])) 2 = Some 0
   \<and> calculate_rsi [1, 2, 3, 3, 3, 2] 2 ! 2 = Inr (Some (100 - 100 / (1 + 1 / (1 / 10 ^ 10))))"
proof -
  have h: "(2::nat) < length [1, 2, 3, 3, 3, 2 :: real]" by simp
  have g: "rolling_mean 2 (map where_pos (diff [1, 2, 3, 3, 3, 2])) 2 = Some 1" by code_simp
  have l: "rolling_mean 2 (map (\<lambda>d. - where_neg d) (diff [1, 2, 3, 3, 3, 2])) 2 = Some 0"
    by code_simp
  from calculate_rsi_zero_loss_clamped [OF h, of 2] g l h show ?thesis by simp
qed

section \<open>Cash and position stay non-negative\<close>

text \<open>
  Claim C4. After every processed bar of each of the three back-test loops the cash is
  not negative and the position is a non-negative integer, for a frame with positive
  prices and a non-negative initial cash (and, in variant 3, rates with
  \<open>commission + slippage \<le> 1\<close> and a non-zero volatility threshold). A buy signal on a
  flat bar whose share count is zero (all variants) or whose cost exceeds the cash
  (variants 2 and 3) leaves cash and position as they were.
\<close>

theorem cash_and_position_never_negative:
  "(0 \<le> initial_cash \<and> (\<forall>b\<in>set data. 0 < open_price b) \<longrightarrow>
      (\<forall>k. \<exists>s. after_bars_v1 data initial_cash k = Inr s \<and> 0 \<le> cash s \<and> 0 \<le> position s))
   \<and> (0 \<le> initial_cash \<and> (\<forall>b\<in>set data. 0 < close b) \<longrightarrow>
      (\<forall>k. \<exists>s. after_bars_v2 data initial_cash k = Inr s \<and> 0 \<le> cash s \<and> 0 \<le> position s))
   \<and> (0 \<le> initial_cash \<and> (\<forall>b\<in>set data. 0 < close b)
        \<and> commission p + slippage p \<le> 1 \<and> vol_threshold p \<noteq> 0 \<longrightarrow>
      (\<forall>k. \<exists>s. after_bars_v3 p data initial_cash k = Inr s \<and> 0 \<le> cash s \<and> 0 \<le> position s))
   \<and> (i + 1 < length data \<and> buy_signal (data ! i) \<and> position s1 = 0
        \<and> open_price (data ! (i + 1)) \<noteq> 0
        \<and> \<lfloor>(cash s1 * 0.97) / open_price (data ! (i + 1))\<rfloor> = 0 \<longrightarrow>
      (\<exists>s'. step_v1 data i s1 = Inr s' \<and> cash s' = cash s1 \<and> position s' = position s1))
   \<and> (i < length data \<and> buy_signal (data ! i) \<and> position s2 = 0 \<and> close (data ! i) \<noteq> 0
        \<and> n2 = \<lfloor>(cash s2 * calculate_position_size_v2 (cash s2) (close (data ! i))
                              (volatility (data ! i))) / close (data ! i)\<rfloor>
        \<and> (n2 \<le> 0 \<or> cash s2 < real_of_int n2 * close (data ! i)
              + calculate_transaction_costs commission_v2 slippage_v2 (close (data ! i))
                  (real_of_int n2)) \<longrightarrow>
      (\<exists>s'. step_v2 data i s2 = Inr s' \<and> cash s' = cash s2 \<and> position s' = position s2))
   \<and> (i < length data \<and> buy_signal (data ! i) \<and> position s3 = 0
        \<and> calculate_position_size p data (cash s3) (close (data ! i)) (volatility (data ! i))
            = Inr n3
        \<and> (n3 \<le> 0 \<or> cash s3 < real_of_int n3 * close (data ! i)
              + calculate_transaction_costs (commission p) (slippage p) (close (data ! i))
                  (real_of_int n3)) \<longrightarrow>
      (\<exists>s'. step_v3 p data i s3 = Inr s' \<and> cash s' = cash s3 \<and> position s' = position s3))"
proof (intro conjI impI allI)
  fix k assume "0 \<le> initial_cash \<and> (\<forall>b\<in>set data. 0 < open_price b)"
  then show "\<exists>s. after_bars_v1 data initial_cash k = Inr s \<and> 0 \<le> cash s \<and> 0 \<le> position s"
    using after_bars_v1_nonneg [of initial_cash data k] by simp
next
  fix k assume "0 \<le> initial_cash \<and> (\<forall>b\<in>set data. 0 < close b)"
  then show "\<exists>s. after_bars_v2 data initial_cash k = Inr s \<and> 0 \<le> cash s \<and> 0 \<le> position s"
    using after_bars_v2_nonneg [of initial_cash data k] by simp
next
  fix k assume "0 \<le> initial_cash \<and> (\<forall>b\<in>set data. 0 < close b)
        \<and> commission p + slippage p \<le> 1 \<and> vol_threshold p \<noteq> 0"
  then show "\<exists>s. after_bars_v3 p data initial_cash k = Inr s \<and> 0 \<le> cash s \<and> 0 \<le> position s"
    using after_bars_v3_nonneg [of initial_cash data p k] by simp
next
  assume "i + 1 < length data \<and> buy_signal (data ! i) \<and> position s1 = 0
        \<and> open_price (data ! (i + 1)) \<noteq> 0
        \<and> \<lfloor>(cash s1 * 0.97) / open_price (data ! (i + 1))\<rfloor> = 0"
  then show "\<exists>s'. step_v1 data i s1 = Inr s' \<and> cash s' = cash s1 \<and> position s' = position s1"
    by (intro v1_zero_share_buy) simp_all
next
  assume a: "i < length data \<and> buy_signal (data ! i) \<and> position s2 = 0 \<and> close (data ! i) \<noteq> 0
        \<and> n2 = \<lfloor>(cash s2 * calculate_position_size_v2 (cash s2) (close (data ! i))
                              (volatility (data ! i))) / close (data ! i)\<rfloor>
        \<and> (n2 \<le> 0 \<or> cash s2 < real_of_int n2 * close (data ! i)
              + calculate_transaction_costs commission_v2 slippage_v2 (close (data ! i))
                  (real_of_int n2))"
  show "\<exists>s'. step_v2 data i s2 = Inr s' \<and> cash s' = cash s2 \<and> position s' = position s2"
    by (rule v2_unaffordable_buy [where n = n2]) (use a in blast)+
next
  assume a: "i < length data \<and> buy_signal (data ! i) \<and> position s3 = 0
        \<and> calculate_position_size p data (cash s3) (close (data ! i)) (volatility (data ! i))
            = Inr n3
        \<and> (n3 \<le> 0 \<or> cash s3 < real_of_int n3 * close (data ! i)
              + calculate_transaction_costs (commission p) (slippage p) (close (data ! i))
                  (real_of_int n3))"
  show "\<exists>s'. step_v3 p data i s3 = Inr s' \<and> cash s' = cash s3 \<and> position s' = position s3"
    by (rule v3_unaffordable_buy [where n = n3]) (use a in blast)+
qed

theorem cash_and_position_never_negative_witness:
  "(0 \<le> (100000::real)
    \<and> list_all (\<lambda>b. 0 < open_price b) scored_stop_frame_v3
    \<and> list_all (\<lambda>b. 0 < close b) scored_stop_frame_v3
    \<and> commission default_params + slippage default_params \<le> 1
    \<and> vol_threshold default_params \<noteq> 0
    \<and> 50 + 1 < length scored_stop_frame_v3
    \<and> buy_signal (scored_stop_frame_v3 ! 50)
    \<and> calculate_position_size default_params scored_stop_frame_v3 (cash (init_v3 0))
          (close (scored_stop_frame_v3 ! 50)) (volatility (scored_stop_frame_v3 ! 50)) = Inr 0)
   \<and> (\<exists>s. after_bars_v1 scored_stop_frame_v3 100000 40 = Inr s \<and> 0 \<le> cash s \<and> 0 \<le> position s)
   \<and> (\<exists>s. after_bars_v2 scored_stop_frame_v3 100000 32 = Inr s \<and> 0 \<le> cash s \<and> 0 \<le> position s)
   \<and> (\<exists>s. after_bars_v3 default_params scored_stop_frame_v3 100000 2 = Inr s
          \<and> 0 \<le> cash s \<and> 0 \<le> position s)
   \<and> (\<exists>s'. step_v1 scored_stop_frame_v3 50 (init_v1 0) = Inr s'
          \<and> cash s' = cash (init_v1 0) \<and> position s' = position (init_v1 0))
   \<and> (\<exists>s'. step_v2 scored_stop_frame_v3 50 (init_v2 0) = Inr s'
          \<and> cash s' = cash (init_v2 0) \<and> position s' = position (init_v2 0))
   \<and> (\<exists>s'. step_v3 default_params scored_stop_frame_v3 50 (init_v3 0) = Inr s'
          \<and> cash s' = cash (init_v3 0) \<and> position s' = position (init_v3 0))"
proof -
  let ?D = scored_stop_frame_v3
  have h1: "\<forall>b\<in>set ?D. 0 < open_price b" by code_simp
  have h2: "\<forall>b\<in>set ?D. 0 < close b" by code_simp
  have h3: "commission default_params + slippage default_params \<le> 1"
    "vol_threshold default_params \<noteq> 0"
    by (simp_all add: default_params_def)
  have h4: "50 + 1 < length ?D" by code_simp
  have h5: "buy_signal (?D ! 50)" by code_simp
  have h6: "open_price (?D ! (50 + 1)) \<noteq> 0" "close (?D ! 50) \<noteq> 0" by code_simp+
  have z: "cash (init_v1 0) = 0" "position (init_v1 0) = 0"
    "cash (init_v2 0) = 0" "position (init_v2 0) = 0"
    "cash (init_v3 0) = 0" "position (init_v3 0) = 0"
    by (simp_all add: init_v1_def init_v2_def init_v3_def)
  have h7: "calculate_position_size default_params ?D (cash (init_v3 0))
          (close (?D ! 50)) (volatility (?D ! 50)) = Inr 0"
    by code_simp
  note T = cash_and_position_never_negative [of 100000 ?D default_params 50 "init_v1 0"
      "init_v2 0" 0 "init_v3 0" 0]
  show ?thesis using T h1 h2 h3 h4 h5 h6 h7 z by (simp add: list_all_iff)
qed

section \<open>A run without signals\<close>

lemma step_v1_hold:
  assumes "i + 1 < length data" "\<not> buy_signal (data ! i)" "position s = 0"
  shows "step_v1 data i s = Inr (emit_v1 data i s)"
  using assms by (simp add: step_v1_def Let_def)

lemma step_v2_hold:
  assumes "i < length data" "\<not> buy_signal (data ! i)" "position s = 0"
  shows "step_v2 data i s = Inr (emit_v2 data i s)"
  using assms by (simp add: step_v2_def stop_block_v2_def trade_block_v2_def Let_def)

lemma step_v3_hold:
  assumes "i < length data" "\<not> buy_signal (data ! i)" "position s = 0"
  shows "step_v3 p data i s = Inr (emit_v3 data i s)"
  using assms by (simp add: step_v3_def long_block_v3_def trade_block_v3_def Let_def)

lemma after_bars_v1_hold:
  assumes hold: "\<forall>b\<in>set data. \<not> buy_signal b \<and> \<not> sell_signal b"
  shows "\<exists>s. after_bars_v1 data c k = Inr s
           \<and> (cash s = c \<and> position s = 0
              \<and> (\<forall>r\<in>set (history s). row_cash r = c \<and> row_position r = 0
                    \<and> row_portfolio_value r = c))
           \<and> map date (history s) = take k (bars_v1 data)"
proof -
  let ?P = "\<lambda>s :: ledger_row state. cash s = c \<and> position s = 0
              \<and> (\<forall>r\<in>set (history s). row_cash r = c \<and> row_position r = 0
                    \<and> row_portfolio_value r = c)"
  have "\<exists>s'. run_bars (step_v1 data) (take k (bars_v1 data)) (init_v1 c) = Inr s' \<and> ?P s'
          \<and> map date (history s') = map date (history (init_v1 c)) @ take k (bars_v1 data)"
  proof (rule run_bars_trace [where P = ?P and h = "\<lambda>s. map date (history s)"])
    show "?P (init_v1 c)" by (simp add: init_v1_def)
  next
    fix i and s :: "ledger_row state"
    assume "i \<in> set (take k (bars_v1 data))" and P: "?P s"
    then have i: "i + 1 < length data" by (meson in_set_takeD in_bars_v1)
    then have "\<not> buy_signal (data ! i)" using hold by simp
    then have "step_v1 data i s = Inr (emit_v1 data i s)" using i P by (simp add: step_v1_hold)
    moreover have "?P (emit_v1 data i s)" using P by (simp add: emit_v1_def)
    ultimately show "\<exists>s'. step_v1 data i s = Inr s' \<and> ?P s'
        \<and> map date (history s') = map date (history s) @ [i]"
      by (simp add: emit_v1_fields)
  qed
  then show ?thesis by (simp add: after_bars_v1_def init_v1_def)
qed

lemma after_bars_v2_hold:
  assumes hold: "\<forall>b\<in>set data. \<not> buy_signal b \<and> \<not> sell_signal b"
  shows "\<exists>s. after_bars_v2 data c k = Inr s
           \<and> (cash s = c \<and> position s = 0
              \<and> (\<forall>r\<in>set (history s). row_cash r = c \<and> row_position r = 0
                    \<and> row_portfolio_value r = c))
           \<and> map date (history s) = take k (bars_v2 data)"
proof -
  let ?P = "\<lambda>s :: ledger_row_v2 state_v2. cash s = c \<and> position s = 0
              \<and> (\<forall>r\<in>set (history s). row_cash r = c \<and> row_position r = 0
                    \<and> row_portfolio_value r = c)"
  have "\<exists>s'. run_bars (step_v2 data) (take k (bars_v2 data)) (init_v2 c) = Inr s' \<and> ?P s'
          \<and> map date (history s') = map date (history (init_v2 c)) @ take k (bars_v2 data)"
  proof (rule run_bars_trace [where P = ?P and h = "\<lambda>s. map date (history s)"])
    show "?P (init_v2 c)" by (simp add: init_v2_def)
  next
    fix i and s :: "ledger_row_v2 state_v2"
    assume "i \<in> set (take k (bars_v2 data))" and P: "?P s"
    then have i: "i < length data" by (meson in_set_takeD in_bars_v2)
    then have "\<not> buy_signal (data ! i)" using hold by simp
    then have "step_v2 data i s = Inr (emit_v2 data i s)" using i P by (simp add: step_v2_hold)
    moreover have "?P (emit_v2 data i s)" using P by (simp add: emit_v2_def)
    ultimately show "\<exists>s'. step_v2 data i s = Inr s' \<and> ?P s'
        \<and> map date (history s') = map date (history s) @ [i]"
      by (simp add: emit_v2_fields)
  qed
  then show ?thesis by (simp add: after_bars_v2_def init_v2_def)
qed

lemma after_bars_v3_hold:
  assumes hold: "\<forall>b\<in>set (generate_signals p data). \<not> buy_signal b \<and> \<not> sell_signal b"
  shows "\<exists>s. after_bars_v3 p data c k = Inr s
           \<and> (cash s = c \<and> position s = 0
              \<and> (\<forall>r\<in>set (history s). row_cash r = c \<and> row_position r = 0
                    \<and> row_portfolio_value r = c))
           \<and> map date (history s) = take k (bars_v3 p data)"
proof -
  let ?d = "generate_signals p data"
  let ?P = "\<lambda>s :: ledger_row_v3 state_v3. cash s = c \<and> position s = 0
              \<and> (\<forall>r\<in>set (history s). row_cash r = c \<and> row_position r = 0
                    \<and> row_portfolio_value r = c)"
  have "\<exists>s'. run_bars (step_v3 p ?d) (take k (bars_v3 p ?d)) (init_v3 c) = Inr s' \<and> ?P s'
          \<and> map date (history s') = map date (history (init_v3 c)) @ take k (bars_v3 p ?d)"
  proof (rule run_bars_trace [where P = ?P and h = "\<lambda>s. map date (history s)"])
    show "?P (init_v3 c)" by (simp add: init_v3_def)
  next
    fix i and s :: "ledger_row_v3 state_v3"
    assume "i \<in> set (take k (bars_v3 p ?d))" and P: "?P s"
    then have i: "i < length ?d" by (meson in_set_takeD in_bars_v3)
    then have "\<not> buy_signal (?d ! i)" using hold by simp
    then have "step_v3 p ?d i s = Inr (emit_v3 ?d i s)" using i P by (simp add: step_v3_hold)
    moreover have "?P (emit_v3 ?d i s)" using P by (simp add: emit_v3_def)
    ultimately show "\<exists>s'. step_v3 p ?d i s = Inr s' \<and> ?P s'
        \<and> map date (history s') = map date (history s) @ [i]"
      by (simp add: emit_v3_fields)
  qed
  moreover have "bars_v3 p ?d = bars_v3 p data"
    by (simp add: bars_v3_def generate_signals_length)
  ultimately show ?thesis by (simp add: after_bars_v3_def init_v3_def Let_def)
qed


text \<open>
  Claim C5. If no row of the frame carries a buy or a sell signal, then in each of the
  three variants, after every processed bar, the cash is the initial cash, the position
  is 0, one ledger row has been written per bar, and every ledger row shows the initial
  cash as cash and as portfolio value and position 0.
\<close>

theorem all_hold_keeps_initial_cash:
  "((\<forall>b\<in>set data. \<not> buy_signal b \<and> \<not> sell_signal b) \<longrightarrow>
      (\<forall>k. \<exists>s. after_bars_v1 data initial_cash k = Inr s
          \<and> cash s = initial_cash \<and> position s = 0
          \<and> map date (history s) = take k (bars_v1 data)
          \<and> (\<forall>r\<in>set (history s). row_cash r = initial_cash \<and> row_position r = 0
                \<and> row_portfolio_value r = initial_cash)))
   \<and> ((\<forall>b\<in>set data. \<not> buy_signal b \<and> \<not> sell_signal b) \<longrightarrow>
      (\<forall>k. \<exists>s. after_bars_v2 data initial_cash k = Inr s
          \<and> cash s = initial_cash \<and> position s = 0
          \<and> map date (history s) = take k (bars_v2 data)
          \<and> (\<forall>r\<in>set (history s). row_cash r = initial_cash \<and> row_position r = 0
                \<and> row_portfolio_value r = initial_cash)))
   \<and> ((\<forall>b\<in>set (generate_signals p data). \<not> buy_signal b \<and> \<not> sell_signal b) \<longrightarrow>
      (\<forall>k. \<exists>s. after_bars_v3 p data initial_cash k = Inr s
          \<and> cash s = initial_cash \<and> position s = 0
          \<and> map date (history s) = take k (bars_v3 p data)
          \<and> (\<forall>r\<in>set (history s). row_cash r = initial_cash \<and> row_position r = 0
                \<and> row_portfolio_value r = initial_cash)))"
proof (intro conjI impI allI)
  fix k assume "\<forall>b\<in>set data. \<not> buy_signal b \<and> \<not> sell_signal b"
  from after_bars_v1_hold [OF this, of initial_cash k]
  show "\<exists>s. after_bars_v1 data initial_cash k = Inr s
          \<and> cash s = initial_cash \<and> position s = 0
          \<and> map date (history s) = take k (bars_v1 data)
          \<and> (\<forall>r\<in>set (history s). row_cash r = initial_cash \<and> row_position r = 0
                \<and> row_portfolio_value r = initial_cash)" by blast
next
  fix k assume "\<forall>b\<in>set data. \<not> buy_signal b \<and> \<not> sell_signal b"
  from after_bars_v2_hold [OF this, of initial_cash k]
  show "\<exists>s. after_bars_v2 data initial_cash k = Inr s
          \<and> cash s = initial_cash \<and> position s = 0
          \<and> map date (history s) = take k (bars_v2 data)
          \<and> (\<forall>r\<in>set (history s). row_cash r = initial_cash \<and> row_position r = 0
                \<and> row_portfolio_value r = initial_cash)" by blast
next
  fix k assume "\<forall>b\<in>set (generate_signals p data). \<not> buy_signal b \<and> \<not> sell_signal b"
  from after_bars_v3_hold [OF this, of initial_cash k]
  show "\<exists>s. after_bars_v3 p data initial_cash k = Inr s
          \<and> cash s = initial_cash \<and> position s = 0
          \<and> map date (history s) = take k (bars_v3 p data)
          \<and> (\<forall>r\<in>set (history s). row_cash r = initial_cash \<and> row_position r = 0
                \<and> row_portfolio_value r = initial_cash)" by blast
qed


theorem all_hold_keeps_initial_cash_witness:
  "list_all (\<lambda>b. \<not> buy_signal b \<and> \<not> sell_signal b) quiet_frame
   \<and> list_all (\<lambda>b. \<not> buy_signal b \<and> \<not> sell_signal b)
         (generate_signals default_params quiet_frame)
   \<and> (\<exists>s. after_bars_v1 quiet_frame 100000 44 = Inr s \<and> cash s = 100000 \<and> position s = 0
          \<and> map date (history s) = take 44 (bars_v1 quiet_frame)
          \<and> list_all (\<lambda>r. row_cash r = 100000 \<and> row_position r = 0
                \<and> row_portfolio_value r = 100000) (history s))
   \<and> (\<exists>s. after_bars_v2 quiet_frame 100000 33 = Inr s \<and> cash s = 100000 \<and> position s = 0
          \<and> map date (history s) = take 33 (bars_v2 quiet_frame)
          \<and> list_all (\<lambda>r. row_cash r = 100000 \<and> row_position r = 0
                \<and> row_portfolio_value r = 100000) (history s))
   \<and> (\<exists>s. after_bars_v3 default_params quiet_frame 100000 3 = Inr s \<and> cash s = 100000
          \<and> position s = 0
          \<and> map date (history s) = take 3 (bars_v3 default_params quiet_frame)
          \<and> list_all (\<lambda>r. row_cash r = 100000 \<and> row_position r = 0
                \<and> row_portfolio_value r = 100000) (history s))"
proof -
  have h1: "\<forall>b\<in>set quiet_frame. \<not> buy_signal b \<and> \<not> sell_signal b" by code_simp
  have h3: "\<forall>b\<in>set (generate_signals default_params quiet_frame).
              \<not> buy_signal b \<and> \<not> sell_signal b" by code_simp
  note T = all_hold_keeps_initial_cash [of quiet_frame 100000 default_params]
  show ?thesis using T h1 h3 by (simp add: list_all_iff)
qed

section \<open>The bars each loop processes\<close>








section \<open>The position size of variant 3 reads the last row\<close>

lemma last_unchanged: "i + 1 < length xs \<Longrightarrow> last (xs[i := x]) = last xs"
  by (cases "xs = []") (auto simp add: last_list_update)

lemma calculate_position_size_last:
  assumes "data \<noteq> []" "data' \<noteq> []" "last data' = last data"
  shows "calculate_position_size p data' c price vol = calculate_position_size p data c price vol"
  by (simp only: calculate_position_size_def assms if_False)

text \<open>
  Claim C10. The share count \<^verbatim>\<open>calculate_position_size\<close> returns for an entry at bar
  \<open>i\<close> does not depend on the RSI or the trend columns of row \<open>i\<close> when \<open>i\<close> is not the
  last row: replacing them leaves the share count as it was. It is the last row of the
  frame that is read: on the sample frame, an RSI of 80 in the last row (bar 51) turns
  the 739 shares bought at bar 50 into 443.
\<close>

theorem v3_position_size_reads_last_row:
  "(\<forall>i r m7 m20 m50 c. i + 1 < length data \<longrightarrow>
      (let data' = data[i := (data ! i)\<lparr>rsi := r, ma_7 := m7, ma_20 := m20, ma_50 := m50\<rparr>]
       in calculate_position_size p data' c (close (data' ! i)) (volatility (data' ! i))
          = calculate_position_size p data c (close (data ! i)) (volatility (data ! i))))
   \<and> calculate_position_size default_params stop_frame_v3 100000
         (close (stop_frame_v3 ! 50)) (volatility (stop_frame_v3 ! 50)) = Inr 739
   \<and> calculate_position_size default_params
         (stop_frame_v3[51 := (stop_frame_v3 ! 51)\<lparr>rsi := Some 80\<rparr>]) 100000
         (close (stop_frame_v3 ! 50)) (volatility (stop_frame_v3 ! 50)) = Inr 443
   \<and> ledger_positions (backtest_v3 default_params stop_frame_v3 100000) = Some [(50, 739)]
   \<and> ledger_positions (backtest_v3 default_params
         (stop_frame_v3[51 := (stop_frame_v3 ! 51)\<lparr>rsi := Some 80\<rparr>]) 100000) = Some [(50, 443)]"
proof (intro conjI allI impI)
  fix i r m7 m20 m50 c
  assume i: "i + 1 < length data"
  let ?d = "data[i := (data ! i)\<lparr>rsi := r, ma_7 := m7, ma_20 := m20, ma_50 := m50\<rparr>]"
  have ne: "data \<noteq> []" "?d \<noteq> []" using i by auto
  have l: "last ?d = last data" using i by (rule last_unchanged)
  have cv: "close (?d ! i) = close (data ! i)" "volatility (?d ! i) = volatility (data ! i)"
    using i by simp_all
  show "let data' = ?d
        in calculate_position_size p data' c (close (data' ! i)) (volatility (data' ! i))
           = calculate_position_size p data c (close (data ! i)) (volatility (data ! i))"
    unfolding Let_def cv by (rule calculate_position_size_last [OF ne l])
next
  show "calculate_position_size default_params stop_frame_v3 100000
         (close (stop_frame_v3 ! 50)) (volatility (stop_frame_v3 ! 50)) = Inr 739"
    by code_simp
  show "calculate_position_size default_params
         (stop_frame_v3[51 := (stop_frame_v3 ! 51)\<lparr>rsi := Some 80\<rparr>]) 100000
         (close (stop_frame_v3 ! 50)) (volatility (stop_frame_v3 ! 50)) = Inr 443"
    by code_simp
  show "ledger_positions (backtest_v3 default_params stop_frame_v3 100000) = Some [(50, 739)]"
    by code_simp
  show "ledger_positions (backtest_v3 default_params
         (stop_frame_v3[51 := (stop_frame_v3 ! 51)\<lparr>rsi := Some 80\<rparr>]) 100000) = Some [(50, 443)]"
    by code_simp
qed

theorem v3_position_size_reads_last_row_witness:
  "50 + 1 < length stop_frame_v3
   \<and> calculate_position_size default_params
        (stop_frame_v3[50 := (stop_frame_v3 ! 50)\<lparr>rsi := Some 20, ma_7 := None,
                                                  ma_20 := None, ma_50 := None\<rparr>])
        100000 101 (Some 0.01) = Inr 739"
proof -
  have h: "50 + 1 < length stop_frame_v3" by code_simp
  have c: "close (stop_frame_v3 ! 50) = 101" "volatility (stop_frame_v3 ! 50) = Some 0.01"
    by code_simp+
  have "calculate_position_size default_params stop_frame_v3 100000
         (close (stop_frame_v3 ! 50)) (volatility (stop_frame_v3 ! 50)) = Inr 739"
    using v3_position_size_reads_last_row [of stop_frame_v3 default_params] by blast
  moreover have "let data' = stop_frame_v3[50 := (stop_frame_v3 ! 50)\<lparr>rsi := Some 20, ma_7 := None,
                                                  ma_20 := None, ma_50 := None\<rparr>]
       in calculate_position_size default_params data' 100000 (close (data' ! 50)) (volatility (data' ! 50))
          = calculate_position_size default_params stop_frame_v3 100000
              (close (stop_frame_v3 ! 50)) (volatility (stop_frame_v3 ! 50))"
    using v3_position_size_reads_last_row [of stop_frame_v3 default_params] h by blast
  ultimately show ?thesis using h c by (simp add: Let_def)
qed

section \<open>The fixed stop\<close>







section \<open>Ledger rows on stop bars\<close>

text \<open>
  Claim C2 says that every processed bar appends one ledger row, also a bar on which a
  stop tripped. In variant 3 the stop branch ends with \<^verbatim>\<open>continue\<close>, before
  \<^verbatim>\<open>history.append\<close>. On \<open>stop_frame_v3\<close> the loop processes bars 50 and 51; 739 shares
  are bought at bar 50 at a close of 101, the close of 90 at bar 51 trips the fixed stop,
  the position is sold, and the ledger ends with the single row of bar 50.
\<close>

theorem v3_stop_bar_writes_no_ledger_row:
  "bars_v3 default_params (generate_signals default_params stop_frame_v3) = [50, 51]
   \<and> ledger_positions (after_bars_v3 default_params stop_frame_v3 100000 1) = Some [(50, 739)]
   \<and> final_position (after_bars_v3 default_params stop_frame_v3 100000 1) = Some 739
   \<and> final_position (after_bars_v3 default_params stop_frame_v3 100000 2) = Some 0
   \<and> ledger_dates (after_bars_v3 default_params stop_frame_v3 100000 2) = Some [50]
   \<and> ledger_dates (backtest_v3 default_params stop_frame_v3 100000) = Some [50]"
  by code_simp

section \<open>A stop and a new entry on one bar\<close>

text \<open>
  Claim C3 says that a bar on which a stop trips sees no further action. Variant 2 has no
  \<^verbatim>\<open>continue\<close> after its stop block. On \<open>stop_and_buy_frame\<close> 513 shares are bought at bar
  20 at a close of 100; at bar 22 the close of 94 trips the stop, the stop block sells the
  513 shares, and the buy signal of the same bar then buys 529 shares.
\<close>

theorem v2_stop_and_reentry_on_one_bar:
  "ledger_positions (after_bars_v2 stop_and_buy_frame 100000 2) = Some [(20, 513), (21, 513)]
   \<and> close (stop_and_buy_frame ! 22) / close (stop_and_buy_frame ! 21) - 1 < stop_loss_v2
   \<and> buy_signal (stop_and_buy_frame ! 22)
   \<and> final_position (and_then (after_bars_v2 stop_and_buy_frame 100000 2)
         (stop_block_v2 stop_and_buy_frame 22)) = Some 0
   \<and> final_position (and_then (after_bars_v2 stop_and_buy_frame 100000 2)
         (step_v2 stop_and_buy_frame 22)) = Some 529
   \<and> ledger_positions (backtest_v2 stop_and_buy_frame 100000)
        = Some [(20, 513), (21, 513), (22, 529)]"
  by code_simp

section \<open>Partial profit-taking in variant 3\<close>





end
